theory Spec2Isabelle
  imports Complex_Main "HOL-Library.Word" "HOL-Library.Sublist"
begin

section \<open>The exec hook-point catalog (package probe)\<close>

text \<open>
  The Go declarations of \<open>HookPoint\<close>, \<open>KTable\<close>, \<open>Capabilities\<close> and
  \<open>eprobe.KProbe\<close> are not part of the sources modelled here; only the composite
  literals of the catalog are. The records below carry the fields those literals write,
  with the types the literals force. A field that a Go literal leaves out holds the zero
  value of its type (\<open>""\<close>, \<open>false\<close>, \<open>nil\<close>); the model writes these zero values out.
\<close>

text \<open>Modelled from the spec: a capability is an opaque named token, and the value an
  event type maps to is the set of capabilities required to receive it (the declaration
  of \<open>Capabilities\<close> is missing). The literal \<open>Capabilities{}\<close> of the source is the
  empty one.\<close>

type_synonym Capability = string

type_synonym Capabilities = "Capability set"

text \<open>Modelled from the spec: a table is known by its name (the declaration of \<open>KTable\<close>
  is missing; the layouts and the size play no part in the catalog).\<close>

record KTable =
  TableName :: string

text \<open>\<open>eprobe.KProbe\<close>: the section names of the entry and of the exit program, the two
  fields the catalog writes.\<close>

record KProbe =
  EntryFunc :: string
  ExitFunc :: string

text \<open>Modelled from the spec: the field \<open>Tables\<close> of a hook point, the names of the
  tables it uses (\<open>tables[]\<close> of the declaration format; the declaration of
  \<open>HookPoint\<close> is missing). No literal of the catalog sets it. \<open>Name\<close>, \<open>KProbes\<close>,
  \<open>EventTypes\<close> and \<open>Optional\<close> are the fields the catalog writes.\<close>

record HookPoint =
  Name :: string
  KProbes :: "KProbe list"
  EventTypes :: "string \<rightharpoonup> Capabilities"
  Tables :: "string list"
  Optional :: bool

text \<open>\<open>var ExecTables = []KTable{}\<close>\<close>

definition ExecTables :: "KTable list" where
  "ExecTables = []"

text \<open>
  \<open>var ExecHookPoints = []*HookPoint{...}\<close>. The helper \<open>getSyscallFnName\<close>, which
  maps a system call to the name of the kernel function implementing it, is defined
  elsewhere in the package and is a parameter here.
\<close>

definition ExecHookPoints :: "(string \<Rightarrow> string) \<Rightarrow> HookPoint list" where
  "ExecHookPoints getSyscallFnName =
    [ \<lparr> Name = ''sys_execve'',
        KProbes = [\<lparr> EntryFunc = ''kprobe/'' @ getSyscallFnName ''execve'', ExitFunc = '''' \<rparr>],
        EventTypes = [''*'' \<mapsto> {}],
        Tables = [],
        Optional = False \<rparr>,
      \<lparr> Name = ''sys_execveat'',
        KProbes = [\<lparr> EntryFunc = ''kprobe/'' @ getSyscallFnName ''execveat'', ExitFunc = '''' \<rparr>],
        EventTypes = [''*'' \<mapsto> {}],
        Tables = [],
        Optional = True \<rparr>,
      \<lparr> Name = ''do_fork'',
        KProbes = [\<lparr> EntryFunc = '''', ExitFunc = ''kretprobe/_do_fork'' \<rparr>,
                   \<lparr> EntryFunc = '''', ExitFunc = ''kretprobe/do_fork'' \<rparr>],
        EventTypes = [''*'' \<mapsto> {}],
        Tables = [],
        Optional = False \<rparr>,
      \<lparr> Name = ''do_exit'',
        KProbes = [\<lparr> EntryFunc = '''', ExitFunc = ''kprobe/do_exit'' \<rparr>],
        EventTypes = [''*'' \<mapsto> {}],
        Tables = [],
        Optional = False \<rparr> ]"

section \<open>The capability filter\<close>

text \<open>Modelled from the spec: \<open>requiredCapabilities(hookPoint, eventType)\<close> returns the
  declared capability set, and a wildcard entry applies to every event type the hook
  point can emit. The function itself is not part of the sources. The result is \<open>None\<close>
  when the hook point declares neither the event type nor a wildcard.\<close>

definition requiredCapabilities :: "HookPoint \<Rightarrow> string \<Rightarrow> Capabilities option" where
  "requiredCapabilities hookPoint eventType =
     (case EventTypes hookPoint eventType of
        Some required \<Rightarrow> Some required
      | None \<Rightarrow> EventTypes hookPoint ''*'')"

text \<open>Modelled from the spec: \<open>consumerSatisfies(consumerCapabilities, required)\<close> is
  true iff \<open>required\<close> is a subset of \<open>consumerCapabilities\<close>. The function itself is
  not part of the sources.\<close>

definition consumerSatisfies :: "Capabilities \<Rightarrow> Capabilities \<Rightarrow> bool" where
  "consumerSatisfies consumerCapabilities required \<longleftrightarrow> required \<subseteq> consumerCapabilities"

section \<open>The NTP check (package net)\<close>

text \<open>
  Conventions of the model.
  \<^item> A Go \<open>error\<close> is a value of \<open>error\<close>; \<open>Error msg\<close> is an ordinary error carrying
    its message. A run-time panic is a value of the same type, so that a function that
    may panic returns it on the left of a sum: \<open>NilPointerDereference\<close> and
    \<open>IndexOutOfRange\<close>.
  \<^item> Go's \<open>int\<close> fields of the configuration are \<open>int\<close>: the check never does
    arithmetic on them. \<open>time.Duration\<close> is a 64-bit word of nanoseconds, and the one
    multiplication on it wraps.
  \<^item> A \<open>float64\<close> is modelled by the real number it denotes. Every offset comes from
    \<open>Duration.Seconds\<close> and is finite, so the values that reach the sort are totally
    ordered; the rounding of the conversion and of the sum is not modelled.
  \<^item> A slice that can be \<open>nil\<close> and is tested against \<open>nil\<close> is a \<open>list option\<close>,
    \<open>None\<close> for \<open>nil\<close>; \<open>Some []\<close> is the empty slice that is not \<open>nil\<close>.
  \<^item> Log lines are not modelled.
\<close>

datatype error = Error string | NilPointerDereference | IndexOutOfRange

type_synonym bytes = "8 word list"

type_synonym Duration = "64 word"

text \<open>\<open>time.Second\<close>, in nanoseconds.\<close>

definition Second :: Duration where
  "Second = 1000000000"

text \<open>\<open>Duration.Seconds\<close> of Go's standard library: the duration as a number of seconds.\<close>

definition Seconds :: "Duration \<Rightarrow> real" where
  "Seconds d = real_of_int (sint d) / 1000000000"

record ntpInstanceConfig =
  OffsetThreshold :: int
  Host :: string
  Hosts :: "string list option"
  Port :: int
  Timeout :: int
  Version :: int
  UseLocalDefinedServers :: bool

text \<open>\<open>type ntpInitConfig struct{}\<close>\<close>

type_synonym ntpInitConfig = unit

text \<open>The field \<open>instance\<close> of \<open>ntpConfig\<close> is written \<open>instance_cfg\<close>, since
  \<open>instance\<close> is a reserved word here.\<close>

record ntpConfig =
  instance_cfg :: ntpInstanceConfig
  initConf :: ntpInitConfig

text \<open>\<open>NTPCheck\<close>: \<open>cfg\<close> is a pointer, \<open>nil\<close> until \<open>Configure\<close> has succeeded. The
  embedded \<open>CheckBase\<close> and \<open>lastCollection\<close> are left out: neither \<open>parse\<close> nor
  \<open>queryOffset\<close> reads or writes them.\<close>

record NTPCheck =
  cfg :: "ntpConfig option"
  errCount :: int

text \<open>\<open>ntp.QueryOptions\<close> and \<open>ntp.Response\<close> of the NTP client library, as far as the
  check uses them. The fields of \<open>QueryOptions\<close> are prefixed with \<open>Query\<close> to keep
  them apart from those of \<open>ntpInstanceConfig\<close>. The other fields of a response, which
  \<open>Validate\<close> inspects, are the extension of the record.\<close>

record QueryOptions =
  QueryVersion :: int
  QueryPort :: int
  QueryTimeout :: Duration

record Response =
  ClockOffset :: Duration

definition awsNTPHosts :: "string list" where
  "awsNTPHosts = [''169.254.169.123'']"

definition gcpNTPHosts :: "string list" where
  "gcpNTPHosts = [''metadata.google.internal'']"

definition azureNTPHosts :: "string list" where
  "azureNTPHosts = [''time.windows.com'']"

definition alibabaNTPHosts :: "string list" where
  "alibabaNTPHosts =
    [''ntp.cloud.aliyuncs.com'', ''ntp1.cloud.aliyuncs.com'', ''ntp2.cloud.aliyuncs.com'',
     ''ntp3.cloud.aliyuncs.com'', ''ntp4.cloud.aliyuncs.com'', ''ntp5.cloud.aliyuncs.com'',
     ''ntp6.cloud.aliyuncs.com'', ''ntp7.cloud.aliyuncs.com'', ''ntp8.cloud.aliyuncs.com'',
     ''ntp9.cloud.aliyuncs.com'', ''ntp10.cloud.aliyuncs.com'', ''ntp11.cloud.aliyuncs.com'',
     ''ntp12.cloud.aliyuncs.com'']"

definition tencentNTPHosts :: "string list" where
  "tencentNTPHosts = [''ntpupdate.tencentyun.com'']"

definition googleNTPHosts :: "string list" where
  "googleNTPHosts =
    [''0.datadog.pool.ntp.org'', ''1.datadog.pool.ntp.org'', ''2.datadog.pool.ntp.org'',
     ''3.datadog.pool.ntp.org'']"

text \<open>What the \<open>IsRunningOn\<close> probes of the cloud-provider packages answer on this host;
  the packages are outside the check and their answers are a parameter.\<close>

record CloudProviders =
  ec2 :: bool
  ecs :: bool
  gce :: bool
  azure :: bool
  alibaba :: bool
  tencent :: bool

definition getCloudProviderNTPHosts :: "CloudProviders \<Rightarrow> string list" where
  "getCloudProviderNTPHosts IsRunningOn =
     (if ec2 IsRunningOn \<or> ecs IsRunningOn then awsNTPHosts
      else if gce IsRunningOn then gcpNTPHosts
      else if azure IsRunningOn then azureNTPHosts
      else if alibaba IsRunningOn then alibabaNTPHosts
      else if tencent IsRunningOn then tencentNTPHosts
      else googleNTPHosts)"

text \<open>The elements a \<open>for ... range\<close> loop visits: none for a \<open>nil\<close> slice.\<close>

definition rangeOf :: "'a list option \<Rightarrow> 'a list" where
  "rangeOf s = (case s of None \<Rightarrow> [] | Some xs \<Rightarrow> xs)"

text \<open>
  The loop of \<open>parse\<close> over the configured hosts:
  \<^verbatim>\<open>for _, h := range c.instance.Hosts { if h != c.instance.Host { hosts = append(hosts, h) } }\<close>
  with \<open>hosts\<close> the list built so far.
\<close>

fun appendOtherHosts :: "string \<Rightarrow> string list \<Rightarrow> string list \<Rightarrow> string list" where
  "appendOtherHosts host hosts [] = hosts"
| "appendOtherHosts host hosts (h # rest) =
     appendOtherHosts host (if h \<noteq> host then hosts @ [h] else hosts) rest"

text \<open>
  \<open>(c *ntpConfig) parse(data, initData, getLocalServers)\<close>. The two calls of
  \<open>yaml.Unmarshal\<close> (into a zero \<open>ntpInstanceConfig\<close> and a zero \<open>ntpInitConfig\<close>) and
  the cloud-provider probes are parameters. The result is the returned error (\<open>None\<close>
  for \<open>nil\<close>) and the configuration \<open>c\<close> points to afterwards; \<open>c.instance\<close> is
  assigned before the local servers are looked up, so a failing lookup leaves the
  unmarshalled instance in \<open>c\<close>. \<open>localNtpServers\<close> stays \<open>nil\<close>, of length 0, when
  \<open>UseLocalDefinedServers\<close> is false.
\<close>

definition parse ::
  "(bytes \<Rightarrow> error + ntpInstanceConfig) \<Rightarrow> (bytes \<Rightarrow> error + ntpInitConfig) \<Rightarrow> CloudProviders
   \<Rightarrow> ntpConfig \<Rightarrow> bytes \<Rightarrow> bytes \<Rightarrow> (unit \<Rightarrow> error + string list)
   \<Rightarrow> error option \<times> ntpConfig" where
  "parse unmarshalInstance unmarshalInit IsRunningOn c data initData getLocalServers =
    (let defaultVersion = 3;
         defaultTimeout = 5;
         defaultPort = 123;
         defaultOffsetThreshold = 60;
         defaultHosts = getCloudProviderNTPHosts IsRunningOn
     in case unmarshalInstance data of
          Inl err \<Rightarrow> (Some err, c)
        | Inr inst \<Rightarrow>
     (case unmarshalInit initData of
          Inl err \<Rightarrow> (Some err, c)
        | Inr initConf' \<Rightarrow>
     (let c = c\<lparr>instance_cfg := inst\<rparr>
      in case (if UseLocalDefinedServers (instance_cfg c) then getLocalServers () else Inr []) of
          Inl err \<Rightarrow> (Some err, c)
        | Inr localNtpServers \<Rightarrow>
     (let c = (if length localNtpServers > 0
               then instance_cfg_update (\<lambda>i. i\<lparr>Hosts := Some localNtpServers\<rparr>) c
               else if Host (instance_cfg c) \<noteq> ''''
               then instance_cfg_update (\<lambda>i. i\<lparr>Hosts :=
                      Some (appendOtherHosts (Host i) [Host i] (rangeOf (Hosts i)))\<rparr>) c
               else c);
          c = (if Hosts (instance_cfg c) = None
               then instance_cfg_update (\<lambda>i. i\<lparr>Hosts := Some defaultHosts\<rparr>) c else c);
          c = (if Port (instance_cfg c) = 0
               then instance_cfg_update (\<lambda>i. i\<lparr>Port := defaultPort\<rparr>) c else c);
          c = (if Version (instance_cfg c) = 0
               then instance_cfg_update (\<lambda>i. i\<lparr>Version := defaultVersion\<rparr>) c else c);
          c = (if Timeout (instance_cfg c) = 0
               then instance_cfg_update (\<lambda>i. i\<lparr>Timeout := defaultTimeout\<rparr>) c else c);
          c = (if OffsetThreshold (instance_cfg c) = 0
               then instance_cfg_update (\<lambda>i. i\<lparr>OffsetThreshold := defaultOffsetThreshold\<rparr>) c
               else c);
          c = c\<lparr>initConf := initConf'\<rparr>
      in (None, c)))))"

text \<open>The \<open>ntp.QueryOptions\<close> literal of \<open>queryOffset\<close>; the timeout is
  \<open>time.Duration(Timeout) * time.Second\<close>, a 64-bit product.\<close>

definition queryOptions :: "ntpConfig \<Rightarrow> QueryOptions" where
  "queryOptions conf =
     \<lparr> QueryVersion = Version (instance_cfg conf),
       QueryPort = Port (instance_cfg conf),
       QueryTimeout = word_of_int (Timeout (instance_cfg conf)) * Second \<rparr>"

text \<open>
  \<open>ntpQuery\<close> is a package variable (\<open>ntp.QueryWithOptions\<close>, replaced in tests): a
  query over the network. It is a parameter that takes and returns the state \<open>'w\<close> of
  the world outside the check, so two queries of one host need not answer alike.
\<close>

type_synonym ('w, 'r) ntpQueryFn =
  "string \<Rightarrow> QueryOptions \<Rightarrow> 'w \<Rightarrow> (error + 'r Response_scheme) \<times> 'w"

text \<open>
  The loop of \<open>queryOffset\<close> over the hosts. The state is the slice \<open>offsets\<close>, the
  counter \<open>c.errCount\<close> and the world. \<open>Validate\<close>, a method of the library's
  \<open>Response\<close>, is a parameter: \<open>None\<close> for a valid response.
\<close>

fun queryHosts ::
  "('w, 'r) ntpQueryFn \<Rightarrow> ('r Response_scheme \<Rightarrow> error option) \<Rightarrow> QueryOptions
   \<Rightarrow> string list \<Rightarrow> real list \<times> int \<times> 'w \<Rightarrow> real list \<times> int \<times> 'w" where
  "queryHosts ntpQuery Validate opts [] st = st"
| "queryHosts ntpQuery Validate opts (host # hosts) (offsets, errCnt, w) =
     (case ntpQuery host opts w of
        (Inl err, w') \<Rightarrow>
          queryHosts ntpQuery Validate opts hosts
            (offsets, (if errCnt \<ge> 10 then 0 else errCnt + 1), w')
      | (Inr response, w') \<Rightarrow>
          (case Validate response of
             Some err \<Rightarrow> queryHosts ntpQuery Validate opts hosts (offsets, 0, w')
           | None \<Rightarrow>
               queryHosts ntpQuery Validate opts hosts
                 (offsets @ [Seconds (ClockOffset response)], 0, w')))"

text \<open>Indexing a slice: Go panics outside \<open>0 \<le> i < len(xs)\<close>.\<close>

definition index :: "'a list \<Rightarrow> int \<Rightarrow> error + 'a" where
  "index xs i = (if 0 \<le> i \<and> i < int (length xs) then Inr (xs ! nat i) else Inl IndexOutOfRange)"

text \<open>
  \<open>(c *NTPCheck) queryOffset()\<close>: the returned pair as a sum (the error, or the
  offset), the check with its updated \<open>errCount\<close>, and the world. \<open>sort.Float64s\<close> is
  \<open>sort\<close>: the ascending arrangement of a list over a total order is unique.
\<close>

definition queryOffset ::
  "('w, 'r) ntpQueryFn \<Rightarrow> ('r Response_scheme \<Rightarrow> error option) \<Rightarrow> NTPCheck \<Rightarrow> 'w
   \<Rightarrow> (error + real) \<times> NTPCheck \<times> 'w" where
  "queryOffset ntpQuery Validate c w =
     (case cfg c of
        None \<Rightarrow> (Inl NilPointerDereference, c, w)
      | Some conf \<Rightarrow>
          (case queryHosts ntpQuery Validate (queryOptions conf) (rangeOf (Hosts (instance_cfg conf)))
                  ([], errCount c, w) of
             (offsets, errCount', w') \<Rightarrow>
               (let c = c\<lparr>errCount := errCount'\<rparr> in
                if length offsets = 0
                then (Inl (Error ''Failed to get clock offset from any ntp host''), c, w')
                else
                  (let offsets = sort offsets;
                       length = int (length offsets);
                       median =
                         (if length mod 2 = 0
                          then (case index offsets (length div 2 - 1) of
                                  Inl panic \<Rightarrow> Inl panic
                                | Inr a \<Rightarrow>
                                    (case index offsets (length div 2) of
                                       Inl panic \<Rightarrow> Inl panic
                                     | Inr b \<Rightarrow> Inr ((a + b) / 2.0)))
                          else index offsets (length div 2))
                   in (median, c, w')))))"

subsection \<open>Notions for stating what \<open>queryOffset\<close> returns\<close>

text \<open>What the configured hosts answer, one after the other, from the world \<open>w\<close> on.\<close>

fun hostResponses ::
  "('w, 'r) ntpQueryFn \<Rightarrow> QueryOptions \<Rightarrow> string list \<Rightarrow> 'w \<Rightarrow> (error + 'r Response_scheme) list" where
  "hostResponses ntpQuery opts [] w = []"
| "hostResponses ntpQuery opts (host # hosts) w =
     (case ntpQuery host opts w of (r, w') \<Rightarrow> r # hostResponses ntpQuery opts hosts w')"

text \<open>The clock offsets, in seconds, of the answers that are responses and are valid.\<close>

definition validOffsets ::
  "('r Response_scheme \<Rightarrow> error option) \<Rightarrow> (error + 'r Response_scheme) list \<Rightarrow> real list" where
  "validOffsets Validate rs =
     [Seconds (ClockOffset response). Inr response \<leftarrow> rs, Validate response = None]"

text \<open>The median in the words of the specification: after sorting, the middle element when the count
  is odd, the arithmetic mean of the two middle elements when it is even.\<close>

definition median :: "real list \<Rightarrow> real" where
  "median xs =
     (let s = sort xs; n = length s in
      if odd n then s ! (n div 2) else (s ! (n div 2 - 1) + s ! (n div 2)) / 2)"

section \<open>Properties of the catalog\<close>

text \<open>
  C1. The catalog declares exactly four hook points, in this order: \<open>sys_execve\<close>
  (mandatory), \<open>sys_execveat\<close> (optional), \<open>do_fork\<close> (mandatory) and \<open>do_exit\<close>
  (mandatory). The first two each have a single probe, an entry probe whose section is
  \<open>kprobe/\<close> followed by the kernel function name of the system call.
\<close>

theorem ExecHookPoints_four_in_order:
  "map Name (ExecHookPoints g) = [''sys_execve'', ''sys_execveat'', ''do_fork'', ''do_exit'']
   \<and> map Optional (ExecHookPoints g) = [False, True, False, False]
   \<and> KProbes (ExecHookPoints g ! 0) = [\<lparr> EntryFunc = ''kprobe/'' @ g ''execve'', ExitFunc = '''' \<rparr>]
   \<and> KProbes (ExecHookPoints g ! 1) = [\<lparr> EntryFunc = ''kprobe/'' @ g ''execveat'', ExitFunc = '''' \<rparr>]"
  by (simp add: ExecHookPoints_def)

text \<open>
  C2. The probe list of \<open>do_fork\<close> holds exactly two candidates, both exit probes (the
  entry slot is empty and the exit section is a \<open>kretprobe/\<close> one), the candidate for
  \<open>_do_fork\<close> first and the candidate for \<open>do_fork\<close> second.
\<close>

theorem do_fork_two_exit_candidates:
  "Name (ExecHookPoints g ! 2) = ''do_fork''
   \<and> KProbes (ExecHookPoints g ! 2) =
       [\<lparr> EntryFunc = '''', ExitFunc = ''kretprobe/'' @ ''_do_fork'' \<rparr>,
        \<lparr> EntryFunc = '''', ExitFunc = ''kretprobe/'' @ ''do_fork'' \<rparr>]"
  by (simp add: ExecHookPoints_def)

text \<open>
  C3. The claim reads: \<open>do_exit\<close> declares a single probe, an exit probe attached at the
  exit of the kernel symbol \<open>do_exit\<close>, that is a kretprobe. The catalog does declare a
  single probe and does fill its exit slot only, but the section it names there is
  \<open>kprobe/do_exit\<close>: it has no \<open>kretprobe/\<close> prefix, unlike both exit candidates of the
  neighbouring \<open>do_fork\<close> entry.
\<close>

theorem do_exit_exit_slot_names_kprobe_section:
  "Name (ExecHookPoints g ! 3) = ''do_exit''
   \<and> map EntryFunc (KProbes (ExecHookPoints g ! 3)) = ['''']
   \<and> map ExitFunc (KProbes (ExecHookPoints g ! 3)) = [''kprobe/do_exit'']
   \<and> map (prefix ''kretprobe/'' \<circ> ExitFunc) (KProbes (ExecHookPoints g ! 3)) = [False]
   \<and> map (prefix ''kretprobe/'' \<circ> ExitFunc) (KProbes (ExecHookPoints g ! 2)) = [True, True]"
  by (simp add: ExecHookPoints_def)

text \<open>
  C4. For every hook point of the catalog the event-type map is the single wildcard
  entry with the empty required set. Hence every event type resolves to the empty
  required set, and every consumer capability set satisfies it.
\<close>

theorem exec_events_open_to_all_consumers:
  "\<forall>hp \<in> set (ExecHookPoints g).
     dom (EventTypes hp) = {''*''} \<and> EventTypes hp ''*'' = Some {}
     \<and> (\<forall>C eventType. \<exists>required.
           requiredCapabilities hp eventType = Some required
           \<and> required = {} \<and> consumerSatisfies C required)"
  by (simp add: ExecHookPoints_def requiredCapabilities_def consumerSatisfies_def)

theorem exec_events_open_to_all_consumers_witness:
  "dom (EventTypes (ExecHookPoints (\<lambda>n. ''sys_'' @ n) ! 2)) = {''*''}
   \<and> requiredCapabilities (ExecHookPoints (\<lambda>n. ''sys_'' @ n) ! 2) ''fork'' = Some {}
   \<and> consumerSatisfies {} (the (requiredCapabilities (ExecHookPoints (\<lambda>n. ''sys_'' @ n) ! 2) ''fork''))
   \<and> consumerSatisfies {''process-monitoring''}
        (the (requiredCapabilities (ExecHookPoints (\<lambda>n. ''sys_'' @ n) ! 2) ''fork''))"
proof -
  let ?hp = "ExecHookPoints (\<lambda>n. ''sys_'' @ n) ! 2"
  have mem: "?hp \<in> set (ExecHookPoints (\<lambda>n. ''sys_'' @ n))"
    by (simp add: ExecHookPoints_def)
  from exec_events_open_to_all_consumers [of "\<lambda>n. ''sys_'' @ n", THEN bspec, OF mem]
  have d: "dom (EventTypes ?hp) = {''*''}"
    and r: "\<forall>C eventType. \<exists>required. requiredCapabilities ?hp eventType = Some required
              \<and> required = {} \<and> consumerSatisfies C required"
    by blast+
  from r [THEN spec, of "{}", THEN spec, of "''fork''"]
       r [THEN spec, of "{''process-monitoring''}", THEN spec, of "''fork''"] d
  show ?thesis by auto
qed

text \<open>C5. Every hook point of the catalog has a non-empty probe list.\<close>

theorem exec_probe_lists_nonempty:
  "\<forall>hp \<in> set (ExecHookPoints g). KProbes hp \<noteq> []"
  by (simp add: ExecHookPoints_def)

theorem exec_probe_lists_nonempty_witness:
  "KProbes (ExecHookPoints (\<lambda>n. ''sys_'' @ n) ! 3) \<noteq> []"
proof -
  have mem: "ExecHookPoints (\<lambda>n. ''sys_'' @ n) ! 3 \<in> set (ExecHookPoints (\<lambda>n. ''sys_'' @ n))"
    by (simp add: ExecHookPoints_def)
  show ?thesis
    by (rule exec_probe_lists_nonempty [of "\<lambda>n. ''sys_'' @ n", THEN bspec, OF mem])
qed

text \<open>
  C6. Every probe specification of the catalog fills exactly one of its two slots: the
  entry function or the exit function, never both and never neither.
\<close>

theorem exec_probes_single_kind:
  "\<forall>hp \<in> set (ExecHookPoints g). \<forall>p \<in> set (KProbes hp).
     (EntryFunc p \<noteq> '''' \<and> ExitFunc p = '''') \<or> (EntryFunc p = '''' \<and> ExitFunc p \<noteq> '''')"
  by (simp add: ExecHookPoints_def)

theorem exec_probes_single_kind_witness:
  "EntryFunc (KProbes (ExecHookPoints (\<lambda>n. ''sys_'' @ n) ! 0) ! 0) = ''kprobe/sys_execve''
   \<and> ExitFunc (KProbes (ExecHookPoints (\<lambda>n. ''sys_'' @ n) ! 0) ! 0) = ''''
   \<and> EntryFunc (KProbes (ExecHookPoints (\<lambda>n. ''sys_'' @ n) ! 2) ! 1) = ''''
   \<and> ExitFunc (KProbes (ExecHookPoints (\<lambda>n. ''sys_'' @ n) ! 2) ! 1) \<noteq> ''''"
proof -
  let ?hs = "ExecHookPoints (\<lambda>n. ''sys_'' @ n)"
  have m0: "?hs ! 0 \<in> set ?hs" and p0: "KProbes (?hs ! 0) ! 0 \<in> set (KProbes (?hs ! 0))"
    and m2: "?hs ! 2 \<in> set ?hs" and p2: "KProbes (?hs ! 2) ! 1 \<in> set (KProbes (?hs ! 2))"
    by (simp_all add: ExecHookPoints_def)
  from exec_probes_single_kind [of "\<lambda>n. ''sys_'' @ n", THEN bspec, OF m0, THEN bspec, OF p0]
       exec_probes_single_kind [of "\<lambda>n. ''sys_'' @ n", THEN bspec, OF m2, THEN bspec, OF p2]
  show ?thesis by (simp add: ExecHookPoints_def)
qed

text \<open>
  C7. Every table a hook point of the catalog refers to is a table of \<open>ExecTables\<close>.
  This holds with nothing to check: no hook point names a table, and \<open>ExecTables\<close> is
  empty.
\<close>

theorem exec_tables_all_declared:
  "ExecTables = []
   \<and> (\<forall>hp \<in> set (ExecHookPoints g).
        Tables hp = [] \<and> (\<forall>t \<in> set (Tables hp). t \<in> TableName ` set ExecTables))"
  by (simp add: ExecHookPoints_def ExecTables_def)

theorem exec_tables_all_declared_witness:
  "ExecTables = [] \<and> Tables (ExecHookPoints (\<lambda>n. ''sys_'' @ n) ! 1) = []
   \<and> set (Tables (ExecHookPoints (\<lambda>n. ''sys_'' @ n) ! 1)) \<subseteq> TableName ` set ExecTables"
proof -
  let ?hs = "ExecHookPoints (\<lambda>n. ''sys_'' @ n)"
  have mem: "?hs ! 1 \<in> set ?hs"
    by (simp add: ExecHookPoints_def)
  from exec_tables_all_declared [of "\<lambda>n. ''sys_'' @ n"]
  have "ExecTables = []"
    and "\<forall>hp \<in> set ?hs. Tables hp = [] \<and> (\<forall>t \<in> set (Tables hp). t \<in> TableName ` set ExecTables)"
    by blast+
  with mem show ?thesis by blast
qed

section \<open>Properties of the NTP check\<close>

lemma queryHosts_offsets:
  "fst (queryHosts ntpQuery Validate opts hosts (offsets, errCnt, w)) =
     offsets @ validOffsets Validate (hostResponses ntpQuery opts hosts w)"
proof (induction hosts arbitrary: offsets errCnt w)
  case Nil
  show ?case by (simp add: validOffsets_def)
next
  case (Cons host hosts)
  obtain r w' where q: "ntpQuery host opts w = (r, w')"
    by (cases "ntpQuery host opts w")
  show ?case
  proof (cases r)
    case (Inl err)
    with q Cons.IH show ?thesis by (simp add: validOffsets_def)
  next
    case (Inr response)
    with q Cons.IH show ?thesis
      by (cases "Validate response") (simp_all add: validOffsets_def)
  qed
qed

lemma validOffsets_empty_iff:
  "validOffsets Validate rs = [] \<longleftrightarrow> \<not> (\<exists>response. Inr response \<in> set rs \<and> Validate response = None)"
  by (induction rs) (auto simp: validOffsets_def split: sum.splits)

lemma index_in_range: "0 \<le> i \<Longrightarrow> i < int (length xs) \<Longrightarrow> index xs i = Inr (xs ! nat i)"
  by (simp add: index_def)

lemma queryOffset_median:
  assumes "offsets \<noteq> []"
  shows "(let offsets = sort offsets;
              length = int (length offsets)
          in if length mod 2 = 0
             then (case index offsets (length div 2 - 1) of
                     Inl panic \<Rightarrow> Inl panic
                   | Inr a \<Rightarrow>
                       (case index offsets (length div 2) of
                          Inl panic \<Rightarrow> Inl panic
                        | Inr b \<Rightarrow> Inr ((a + b) / 2.0)))
             else index offsets (length div 2)) = Inr (median offsets)"
proof -
  let ?n = "length offsets"
  let ?s = "sort offsets"
  from assms have pos: "0 < ?n" by simp
  have half: "nat (int ?n div 2) = ?n div 2" by linarith
  have len: "length ?s = ?n" by simp
  have "0 \<le> int ?n div 2" and "int ?n div 2 < int (length ?s)"
    unfolding len using pos by linarith+
  then have "index ?s (int ?n div 2) = Inr (?s ! nat (int ?n div 2))"
    by (rule index_in_range)
  then have upper: "index ?s (int ?n div 2) = Inr (?s ! (?n div 2))"
    by (simp only: half)
  show ?thesis
  proof (cases "even ?n")
    case True
    then have m: "int ?n mod 2 = 0" by presburger
    from True obtain k where "?n = 2 * k" by (auto elim: evenE)
    with pos have two: "2 \<le> ?n" by presburger
    have pred: "nat (int ?n div 2 - 1) = ?n div 2 - 1" using two by linarith
    have "0 \<le> int ?n div 2 - 1" and "int ?n div 2 - 1 < int (length ?s)"
      unfolding len using two by linarith+
    then have "index ?s (int ?n div 2 - 1) = Inr (?s ! nat (int ?n div 2 - 1))"
      by (rule index_in_range)
    then have lower: "index ?s (int ?n div 2 - 1) = Inr (?s ! (?n div 2 - 1))"
      by (simp only: pred)
    from True m lower upper show ?thesis
      by (simp add: median_def Let_def)
  next
    case False
    then have m: "int ?n mod 2 \<noteq> 0" by presburger
    from False m upper show ?thesis
      by (simp add: median_def Let_def)
  qed
qed

text \<open>
  C8. For a configured check, \<open>queryOffset\<close> returns an error if and only if no
  configured host yields a response that both queries successfully and passes
  validation. Otherwise it returns the median of the collected offsets, in seconds; the
  indexing of the sorted slice never panics.
\<close>

theorem queryOffset_error_iff_no_valid_response:
  assumes "cfg c = Some conf"
  shows "((\<exists>err. fst (queryOffset ntpQuery Validate c w) = Inl err) \<longleftrightarrow>
            \<not> (\<exists>response. Inr response \<in> set (hostResponses ntpQuery (queryOptions conf)
                                  (rangeOf (Hosts (instance_cfg conf))) w)
                  \<and> Validate response = None))
       \<and> (fst (queryOffset ntpQuery Validate c w) =
            (if validOffsets Validate (hostResponses ntpQuery (queryOptions conf)
                  (rangeOf (Hosts (instance_cfg conf))) w) = []
             then Inl (Error ''Failed to get clock offset from any ntp host'')
             else Inr (median (validOffsets Validate (hostResponses ntpQuery (queryOptions conf)
                  (rangeOf (Hosts (instance_cfg conf))) w)))))"
proof -
  let ?rs = "hostResponses ntpQuery (queryOptions conf) (rangeOf (Hosts (instance_cfg conf))) w"
  let ?offs = "validOffsets Validate ?rs"
  obtain offsets errCount' w' where
    loop: "queryHosts ntpQuery Validate (queryOptions conf) (rangeOf (Hosts (instance_cfg conf)))
             ([], errCount c, w) = (offsets, errCount', w')"
    by (cases "queryHosts ntpQuery Validate (queryOptions conf) (rangeOf (Hosts (instance_cfg conf)))
             ([], errCount c, w)")
  have offsets: "offsets = ?offs"
    using queryHosts_offsets [of ntpQuery Validate "queryOptions conf"
        "rangeOf (Hosts (instance_cfg conf))" "[]" "errCount c" w]
    by (simp add: loop)
  have result: "fst (queryOffset ntpQuery Validate c w) =
      (if ?offs = [] then Inl (Error ''Failed to get clock offset from any ntp host'')
       else Inr (median ?offs))"
  proof (cases "?offs = []")
    case True
    with assms loop offsets show ?thesis by (simp add: queryOffset_def)
  next
    case False
    with assms loop offsets queryOffset_median [OF False] show ?thesis
      by (simp add: queryOffset_def Let_def)
  qed
  have "(\<exists>err. fst (queryOffset ntpQuery Validate c w) = Inl err) \<longleftrightarrow> ?offs = []"
    by (simp add: result)
  also have "?offs = [] \<longleftrightarrow> \<not> (\<exists>response. Inr response \<in> set ?rs \<and> Validate response = None)"
    by (rule validOffsets_empty_iff)
  finally show ?thesis
    using result by (rule conjI)
qed

theorem queryOffset_error_iff_no_valid_response_witness:
  "fst (queryOffset
      (\<lambda>host opts (n :: nat).
         (if host = ''down'' then Inl (Error ''i/o timeout'')
          else Inr \<lparr> ClockOffset = (if host = ''a'' then 4000000000 else 2000000000),
                     \<dots> = (if host = ''c'' then 0 else 1 :: nat) \<rparr>,
          Suc n))
      (\<lambda>response. if Response.more response = 0 then Some (Error ''kiss of death'') else None)
      \<lparr> cfg = Some \<lparr> instance_cfg =
                      \<lparr> OffsetThreshold = 60, Host = '''', Hosts = Some [''a'', ''down'', ''b'', ''c''],
                        Port = 123, Timeout = 5, Version = 3, UseLocalDefinedServers = False \<rparr>,
                    initConf = () \<rparr>,
        errCount = 0 \<rparr>
      0) = Inr 3"
proof -
  let ?conf = "\<lparr> instance_cfg =
                      \<lparr> OffsetThreshold = 60, Host = '''', Hosts = Some [''a'', ''down'', ''b'', ''c''],
                        Port = 123, Timeout = 5, Version = 3, UseLocalDefinedServers = False \<rparr>,
                    initConf = () \<rparr>"
  let ?ntpQuery = "\<lambda>host (opts :: QueryOptions) (n :: nat).
         (if host = ''down'' then (Inl (Error ''i/o timeout'') :: error + nat Response_scheme)
          else Inr \<lparr> ClockOffset = (if host = ''a'' then 4000000000 else 2000000000),
                     \<dots> = (if host = ''c'' then 0 else 1 :: nat) \<rparr>,
          Suc n)"
  let ?Validate = "\<lambda>response :: nat Response_scheme.
         if Response.more response = 0 then Some (Error ''kiss of death'') else None"
  have c: "cfg \<lparr> cfg = Some ?conf, errCount = 0 \<rparr> = Some ?conf"
    by simp
  have s: "sint (4000000000 :: 64 word) = 4000000000" "sint (2000000000 :: 64 word) = 2000000000"
    by simp_all
  from queryOffset_error_iff_no_valid_response
         [where ntpQuery = ?ntpQuery and Validate = ?Validate and w = 0, OF c]
  show ?thesis
    by (simp add: validOffsets_def rangeOf_def queryOptions_def median_def Seconds_def s)
qed

lemma appendOtherHosts_filter:
  "appendOtherHosts host hosts rest = hosts @ filter (\<lambda>h. h \<noteq> host) rest"
  by (induction rest arbitrary: hosts) auto

lemma count_list_filter_neq_self: "count_list (filter (\<lambda>h. h \<noteq> x) xs) x = 0"
  by (induction xs) auto

lemma count_list_filter_neq_other:
  "h \<noteq> x \<Longrightarrow> count_list (filter (\<lambda>h. h \<noteq> x) xs) h = count_list xs h"
  by (induction xs) auto

lemma parse_success:
  assumes "unmarshalInstance data = Inr inst"
    and "unmarshalInit initData = Inr ic"
    and "(if UseLocalDefinedServers inst then getLocalServers () else Inr []) = Inr localNtpServers"
  shows "parse unmarshalInstance unmarshalInit IsRunningOn c data initData getLocalServers =
    (None,
     \<lparr> instance_cfg =
         \<lparr> OffsetThreshold = (if OffsetThreshold inst = 0 then 60 else OffsetThreshold inst),
           Host = Host inst,
           Hosts = (if length localNtpServers > 0 then Some localNtpServers
                    else if Host inst \<noteq> '''' then
                      Some (appendOtherHosts (Host inst) [Host inst] (rangeOf (Hosts inst)))
                    else if Hosts inst = None then Some (getCloudProviderNTPHosts IsRunningOn)
                    else Hosts inst),
           Port = (if Port inst = 0 then 123 else Port inst),
           Timeout = (if Timeout inst = 0 then 5 else Timeout inst),
           Version = (if Version inst = 0 then 3 else Version inst),
           UseLocalDefinedServers = UseLocalDefinedServers inst \<rparr>,
       initConf = ic \<rparr>)"
proof -
  obtain ot h hs p t v u where inst: "inst = \<lparr> OffsetThreshold = ot, Host = h, Hosts = hs, Port = p,
      Timeout = t, Version = v, UseLocalDefinedServers = u \<rparr>"
    by (cases inst) simp
  obtain ci cc where c: "c = \<lparr> instance_cfg = ci, initConf = cc \<rparr>"
    by (cases c) simp
  from assms(3) have loc: "(if u then getLocalServers () else Inr []) = Inr localNtpServers"
    by (simp add: inst)
  show ?thesis
    unfolding parse_def Let_def assms(1) assms(2) sum.case
    by (cases "p = 0"; cases "v = 0"; cases "t = 0"; cases "ot = 0";
        cases "localNtpServers = []"; cases "h = []"; cases hs; simp add: inst c loc)
qed

lemma parse_ok_inputs:
  assumes "parse unmarshalInstance unmarshalInit IsRunningOn c data initData getLocalServers = (None, c')"
  shows "\<exists>inst ic localNtpServers.
           unmarshalInstance data = Inr inst \<and> unmarshalInit initData = Inr ic
           \<and> (if UseLocalDefinedServers inst then getLocalServers () else Inr []) = Inr localNtpServers"
proof -
  obtain inst where i: "unmarshalInstance data = Inr inst"
    using assms by (cases "unmarshalInstance data") (simp_all add: parse_def)
  obtain ic where ic: "unmarshalInit initData = Inr ic"
    using assms i by (cases "unmarshalInit initData") (simp_all add: parse_def)
  obtain l where "(if UseLocalDefinedServers inst then getLocalServers () else Inr []) = Inr l"
    using assms i ic
    by (cases "if UseLocalDefinedServers inst then getLocalServers () else Inr []")
       (simp_all add: parse_def Let_def)
  with i ic show ?thesis by blast
qed

text \<open>
  C9. After a successful \<open>parse\<close>, every numeric instance field that the YAML input left
  at zero holds its default (\<open>Port\<close> 123, \<open>Version\<close> 3, \<open>Timeout\<close> 5,
  \<open>OffsetThreshold\<close> 60), and when no host was configured (no local server in use,
  \<open>Host\<close> empty, \<open>Hosts\<close> absent, that is \<open>nil\<close>) the \<open>Hosts\<close> list is the default
  list of the cloud provider.
\<close>

theorem parse_fills_defaults:
  assumes "parse unmarshalInstance unmarshalInit IsRunningOn c data initData getLocalServers = (None, c')"
  shows "\<exists>inst. unmarshalInstance data = Inr inst
     \<and> (Port inst = 0 \<longrightarrow> Port (instance_cfg c') = 123)
     \<and> (Version inst = 0 \<longrightarrow> Version (instance_cfg c') = 3)
     \<and> (Timeout inst = 0 \<longrightarrow> Timeout (instance_cfg c') = 5)
     \<and> (OffsetThreshold inst = 0 \<longrightarrow> OffsetThreshold (instance_cfg c') = 60)
     \<and> ((\<not> UseLocalDefinedServers inst \<or> getLocalServers () = Inr [])
          \<and> Host inst = '''' \<and> Hosts inst = None
          \<longrightarrow> Hosts (instance_cfg c') = Some (getCloudProviderNTPHosts IsRunningOn))"
proof -
  from parse_ok_inputs [OF assms] obtain inst ic l where
    i: "unmarshalInstance data = Inr inst" and ic: "unmarshalInit initData = Inr ic"
    and l: "(if UseLocalDefinedServers inst then getLocalServers () else Inr []) = Inr l"
    by blast
  note r = parse_success [where unmarshalInstance = unmarshalInstance and data = data
      and unmarshalInit = unmarshalInit and initData = initData
      and getLocalServers = getLocalServers and IsRunningOn = IsRunningOn and c = c, OF i ic l]
  have none: "l = []" if "\<not> UseLocalDefinedServers inst \<or> getLocalServers () = Inr []"
    using l that by (auto split: if_splits)
  from assms r none show ?thesis
    by (intro exI [of _ inst]) (auto simp: i)
qed

theorem parse_fills_defaults_witness:
  "Port (instance_cfg (snd (parse
      (\<lambda>_. Inr \<lparr> OffsetThreshold = 0, Host = '''', Hosts = None, Port = 0, Timeout = 0,
                  Version = 0, UseLocalDefinedServers = False \<rparr>)
      (\<lambda>_. Inr ())
      \<lparr> ec2 = False, ecs = False, gce = False, azure = True, alibaba = False, tencent = False \<rparr>
      \<lparr> instance_cfg = \<lparr> OffsetThreshold = 0, Host = '''', Hosts = None, Port = 0, Timeout = 0,
                          Version = 0, UseLocalDefinedServers = False \<rparr>, initConf = () \<rparr>
      [] [] (\<lambda>_. Inl (Error ''no local servers''))))) = 123
   \<and> Hosts (instance_cfg (snd (parse
      (\<lambda>_. Inr \<lparr> OffsetThreshold = 0, Host = '''', Hosts = None, Port = 0, Timeout = 0,
                  Version = 0, UseLocalDefinedServers = False \<rparr>)
      (\<lambda>_. Inr ())
      \<lparr> ec2 = False, ecs = False, gce = False, azure = True, alibaba = False, tencent = False \<rparr>
      \<lparr> instance_cfg = \<lparr> OffsetThreshold = 0, Host = '''', Hosts = None, Port = 0, Timeout = 0,
                          Version = 0, UseLocalDefinedServers = False \<rparr>, initConf = () \<rparr>
      [] [] (\<lambda>_. Inl (Error ''no local servers''))))) = Some [''time.windows.com'']"
proof -
  let ?inst = "\<lparr> OffsetThreshold = 0, Host = '''', Hosts = None, Port = 0, Timeout = 0,
                  Version = 0, UseLocalDefinedServers = False \<rparr>"
  let ?p = "parse (\<lambda>_. Inr ?inst) (\<lambda>_. Inr ())
      \<lparr> ec2 = False, ecs = False, gce = False, azure = True, alibaba = False, tencent = False \<rparr>
      \<lparr> instance_cfg = ?inst, initConf = () \<rparr>
      [] [] (\<lambda>_. Inl (Error ''no local servers''))"
  have ok: "?p = (None, snd ?p)"
    by (simp add: parse_def)
  from parse_fills_defaults [OF ok] show ?thesis
    by (simp add: getCloudProviderNTPHosts_def azureNTPHosts_def)
qed

text \<open>
  C10. When no local server is in use (\<open>UseLocalDefinedServers\<close> is false, or the local
  lookup returned none) and \<open>Host\<close> is not empty, \<open>parse\<close> succeeds as soon as both
  documents unmarshal, and the resulting \<open>Hosts\<close> list is \<open>Host\<close> followed by the
  configured \<open>Hosts\<close> entries, in order, without those equal to \<open>Host\<close>. So \<open>Host\<close>
  occurs exactly once, and every other entry occurs as often as it was configured:
  duplicates among the other hosts stay.
\<close>

theorem parse_puts_host_first:
  assumes "unmarshalInstance data = Inr inst"
    and "unmarshalInit initData = Inr ic"
    and "\<not> UseLocalDefinedServers inst \<or> getLocalServers () = Inr []"
    and "Host inst \<noteq> ''''"
  shows "\<exists>c'. parse unmarshalInstance unmarshalInit IsRunningOn c data initData getLocalServers = (None, c')
     \<and> Hosts (instance_cfg c') = Some (Host inst # filter (\<lambda>h. h \<noteq> Host inst) (rangeOf (Hosts inst)))
     \<and> count_list (rangeOf (Hosts (instance_cfg c'))) (Host inst) = 1
     \<and> (\<forall>h. h \<noteq> Host inst \<longrightarrow>
           count_list (rangeOf (Hosts (instance_cfg c'))) h = count_list (rangeOf (Hosts inst)) h)"
proof -
  let ?res = "Host inst # filter (\<lambda>h. h \<noteq> Host inst) (rangeOf (Hosts inst))"
  have l: "(if UseLocalDefinedServers inst then getLocalServers () else Inr []) = Inr []"
    using assms(3) by auto
  note r = parse_success [where unmarshalInstance = unmarshalInstance and data = data
      and unmarshalInit = unmarshalInit and initData = initData
      and getLocalServers = getLocalServers and IsRunningOn = IsRunningOn and c = c,
      OF assms(1) assms(2) l]
  have once: "count_list ?res (Host inst) = 1"
    by (simp add: count_list_filter_neq_self)
  have others: "count_list ?res h = count_list (rangeOf (Hosts inst)) h" if "h \<noteq> Host inst" for h
    using that by (simp add: count_list_filter_neq_other)
  have res: "rangeOf (Some ?res) = ?res"
    by (simp add: rangeOf_def)
  from assms(4) once others show ?thesis
    by (simp only: r) (simp add: appendOtherHosts_filter res del: count_list.simps filter.simps)
qed

theorem parse_puts_host_first_witness:
  "parse
      (\<lambda>_. Inr \<lparr> OffsetThreshold = 0, Host = ''h'', Hosts = Some [''a'', ''h'', ''a'', ''h'', ''b''],
                  Port = 0, Timeout = 0, Version = 0, UseLocalDefinedServers = True \<rparr>)
      (\<lambda>_. Inr ())
      \<lparr> ec2 = False, ecs = False, gce = False, azure = False, alibaba = False, tencent = False \<rparr>
      \<lparr> instance_cfg = \<lparr> OffsetThreshold = 0, Host = '''', Hosts = None, Port = 0, Timeout = 0,
                          Version = 0, UseLocalDefinedServers = False \<rparr>, initConf = () \<rparr>
      [] [] (\<lambda>_. Inr [])
   = (None,
      \<lparr> instance_cfg = \<lparr> OffsetThreshold = 60, Host = ''h'', Hosts = Some [''h'', ''a'', ''a'', ''b''],
                          Port = 123, Timeout = 5, Version = 3, UseLocalDefinedServers = True \<rparr>,
        initConf = () \<rparr>)"
proof -
  let ?inst = "\<lparr> OffsetThreshold = 0, Host = ''h'', Hosts = Some [''a'', ''h'', ''a'', ''h'', ''b''],
                  Port = 0, Timeout = 0, Version = 0, UseLocalDefinedServers = True \<rparr>"
  have h1: "(\<lambda>_ :: bytes. (Inr ?inst :: error + ntpInstanceConfig)) [] = Inr ?inst"
    and h2: "(\<lambda>_ :: bytes. (Inr () :: error + ntpInitConfig)) [] = Inr ()"
    and h3: "\<not> UseLocalDefinedServers ?inst \<or> (\<lambda>_ :: unit. (Inr [] :: error + string list)) () = Inr []"
    and h4: "Host ?inst \<noteq> ''''"
    by simp_all
  from parse_puts_host_first [where unmarshalInstance = "\<lambda>_. Inr ?inst" and data = "[]"
      and unmarshalInit = "\<lambda>_. Inr ()" and initData = "[]" and getLocalServers = "\<lambda>_. Inr []"
      and inst = ?inst and ic = "()", OF h1 h2 h3 h4,
      of "\<lparr> ec2 = False, ecs = False, gce = False, azure = False, alibaba = False, tencent = False \<rparr>"
         "\<lparr> instance_cfg = \<lparr> OffsetThreshold = 0, Host = '''', Hosts = None, Port = 0, Timeout = 0,
                          Version = 0, UseLocalDefinedServers = False \<rparr>, initConf = () \<rparr>"]
  show ?thesis
    by (simp add: parse_def rangeOf_def)
qed

end
